theory Spec2Isabelle
  imports Complex_Main "HOL-Library.Sublist" "HOL-Library.AList"
begin

section \<open>Python strings and paths\<close>

text \<open>
  A Python \<open>str\<close> is modelled as a \<open>string\<close>: one \<open>char\<close> per code point, for the
  code points below 256. \<open>needle in hay\<close> on strings is \<open>py_in needle hay\<close>.
\<close>

fun py_in :: "string \<Rightarrow> string \<Rightarrow> bool" where
  "py_in needle [] = (needle = [])"
| "py_in needle (c # cs) = (prefix needle (c # cs) \<or> py_in needle cs)"

text \<open>\<open>str.lower()\<close>: the ASCII capitals and the Latin-1 capitals move up by 32.\<close>

definition lower_char :: "char \<Rightarrow> char" where
  "lower_char c =
     (let n = (of_char c :: nat)
      in if (65 \<le> n \<and> n \<le> 90) \<or> (192 \<le> n \<and> n \<le> 222 \<and> n \<noteq> 215)
         then char_of (n + 32) else c)"

definition py_lower :: "string \<Rightarrow> string" where
  "py_lower s = map lower_char s"

text \<open>\<open>str.strip()\<close> with no argument removes the white space of both ends.\<close>

definition py_isspace :: "char \<Rightarrow> bool" where
  "py_isspace c =
     (let n = (of_char c :: nat)
      in (9 \<le> n \<and> n \<le> 13) \<or> (28 \<le> n \<and> n \<le> 32) \<or> n = 133 \<or> n = 160)"

definition py_strip :: "string \<Rightarrow> string" where
  "py_strip s = rev (dropWhile py_isspace (rev (dropWhile py_isspace s)))"

text \<open>\<open>s.replace(c, '')\<close> for a one-character \<open>c\<close>.\<close>

definition remove_char :: "char \<Rightarrow> string \<Rightarrow> string" where
  "remove_char c s = filter (\<lambda>x. x \<noteq> c) s"

text \<open>\<open>s.replace(old, '')\<close> for a non-empty \<open>old\<close>: every occurrence, left to right.\<close>

function remove_all :: "string \<Rightarrow> string \<Rightarrow> string" where
  "remove_all old [] = []"
| "remove_all old (c # cs) =
     (if old \<noteq> [] \<and> prefix old (c # cs)
      then remove_all old (drop (length old) (c # cs))
      else c # remove_all old cs)"
  by pat_completeness auto
termination
  by (relation "measure (\<lambda>(old, s). length s)") (auto simp: neq_Nil_conv)

text \<open>
  \<open>split_on c s\<close> is \<open>s.split(c)\<close>. \<open>Path(p).name\<close> of a POSIX path is its last component,
  where empty components and \<open>.\<close> do not count, and \<open>''\<close> when there is none.
\<close>

fun split_on :: "char \<Rightarrow> string \<Rightarrow> string list" where
  "split_on sep [] = [[]]"
| "split_on sep (c # cs) =
     (if c = sep then [] # split_on sep cs
      else (case split_on sep cs of
              [] \<Rightarrow> [[c]]
            | w # ws \<Rightarrow> (c # w) # ws))"

definition path_parts :: "string \<Rightarrow> string list" where
  "path_parts p = filter (\<lambda>w. w \<noteq> [] \<and> w \<noteq> ''.'') (split_on CHR ''/'' p)"

definition path_name :: "string \<Rightarrow> string" where
  "path_name p = (case rev (path_parts p) of [] \<Rightarrow> [] | w # _ \<Rightarrow> w)"

text \<open>\<open>directory / name\<close>, for a relative \<open>name\<close>.\<close>

definition path_join :: "string \<Rightarrow> string \<Rightarrow> string" where
  "path_join directory name = (if name = [] then directory else directory @ ''/'' @ name)"

text \<open>\<open>str(n)\<close> of a natural number.\<close>

definition digit_char :: "nat \<Rightarrow> char" where
  "digit_char n = char_of (48 + n)"

fun str_nat :: "nat \<Rightarrow> string" where
  "str_nat n = (if n < 10 then [digit_char n] else str_nat (n div 10) @ [digit_char (n mod 10)])"

declare str_nat.simps [simp del]

text \<open>\<open>s.rsplit('.', 1)\<close>: the two parts around the last dot, or nothing when there is no dot.\<close>

definition rsplit_dot :: "string \<Rightarrow> (string \<times> string) option" where
  "rsplit_dot s =
     (if CHR ''.'' \<in> set s
      then Some (rev (drop 1 (dropWhile (\<lambda>c. c \<noteq> CHR ''.'') (rev s))),
                 rev (takeWhile (\<lambda>c. c \<noteq> CHR ''.'') (rev s)))
      else None)"

section \<open>The job record and the registry\<close>

definition DOWNLOAD_DIR :: string where "DOWNLOAD_DIR = ''downloads''"
definition TEMP_DIR :: string where "TEMP_DIR = ''temp''"
definition MAX_FILE_AGE_HOURS :: int where "MAX_FILE_AGE_HOURS = 24"
definition MAX_CONCURRENT_DOWNLOADS :: nat where "MAX_CONCURRENT_DOWNLOADS = 3"

text \<open>
  \<open>class DownloadProgress\<close>. \<open>progress\<close> holds the integers 0, 90 and 100 and the results of
  float arithmetic; it is modelled as an exact rational, without rounding.
  \<open>completed_at\<close> is a time stamp in seconds; \<open>None\<close> of Python is \<open>None\<close>.
\<close>

record DownloadProgress =
  download_id :: string
  status :: string
  progress :: rat
  filename :: "string option"
  error :: "string option"
  completed_at :: "int option"
  file_path :: "string option"

definition new_DownloadProgress :: "string \<Rightarrow> DownloadProgress" where
  "new_DownloadProgress did =
     \<lparr>download_id = did, status = ''starting'', progress = 0, filename = None,
      error = None, completed_at = None, file_path = None\<rparr>"

text \<open>
  \<open>active_downloads\<close>: a dictionary in insertion order, so an association list with
  distinct keys; \<open>map_of\<close> reads it, \<open>AList.update\<close> writes it, \<open>AList.delete\<close> is \<open>del\<close>.
\<close>

type_synonym registry = "(string \<times> DownloadProgress) list"

datatype exn =
    KeyError string
  | TypeError string
  | AttributeError string
  | UnboundLocalError string
  | DownloadError string
  | OSError string
  | Exception string

text \<open>\<open>str(e)\<close>: a \<open>KeyError\<close> prints its key quoted, the others their message.\<close>

fun str_exn :: "exn \<Rightarrow> string" where
  "str_exn (KeyError k) = [CHR 0x27] @ k @ [CHR 0x27]"
| "str_exn (TypeError m) = m"
| "str_exn (AttributeError m) = m"
| "str_exn (UnboundLocalError m) = m"
| "str_exn (DownloadError m) = m"
| "str_exn (OSError m) = m"
| "str_exn (Exception m) = m"

section \<open>The progress hook\<close>

text \<open>
  The dictionary \<open>d\<close> the library passes to the hook: \<open>None\<close> is a missing key (for
  \<open>total_bytes\<close> also the value \<open>None\<close>, which the hook does not tell apart).
  \<open>d_error\<close> is \<open>str(d['error'])\<close>.
\<close>

record hook_dict =
  d_status :: "string option"
  d_total_bytes :: "int option"
  d_downloaded_bytes :: "int option"
  d_percent_str :: "string option"
  d_filename :: "string option"
  d_error :: "string option"

text \<open>
  Lines 57 to 63: the fall-back to the percentage string. \<open>py_float\<close> is the built-in
  \<open>float\<close>, a parameter: \<open>None\<close> is its \<open>ValueError\<close>.
\<close>

definition percent_fallback ::
  "(string \<Rightarrow> rat option) \<Rightarrow> hook_dict \<Rightarrow> DownloadProgress \<Rightarrow> DownloadProgress" where
  "percent_fallback py_float d p =
     (case d_percent_str d of
        None \<Rightarrow> p
      | Some s \<Rightarrow>
          (case py_float (remove_char CHR ''%'' (py_strip s)) of
             Some v \<Rightarrow> p\<lparr>progress := v\<rparr>
           | None \<Rightarrow> p))"

text \<open>
  Lines 54 to 73, on the job's record: the record as the hook leaves it, and the exception
  the hook raises, if any (a missing key).
\<close>

definition hook_update ::
  "(string \<Rightarrow> rat option) \<Rightarrow> hook_dict \<Rightarrow> DownloadProgress \<Rightarrow> DownloadProgress \<times> exn option" where
  "hook_update py_float d p =
     (case d_status d of
        None \<Rightarrow> (p, Some (KeyError ''status''))
      | Some s \<Rightarrow>
          if s = ''downloading'' then
            (case d_total_bytes d of
               None \<Rightarrow> ((percent_fallback py_float d p)\<lparr>status := ''downloading''\<rparr>, None)
             | Some t \<Rightarrow>
                 if t \<noteq> 0 then
                   (case d_downloaded_bytes d of
                      None \<Rightarrow> (p, Some (KeyError ''downloaded_bytes''))
                    | Some n \<Rightarrow>
                        (p\<lparr>progress := (of_int n / of_int t) * 100, status := ''downloading''\<rparr>,
                         None))
                 else ((percent_fallback py_float d p)\<lparr>status := ''downloading''\<rparr>, None))
          else if s = ''finished'' then
            (case d_filename d of
               None \<Rightarrow> (p\<lparr>status := ''processing'', progress := 90\<rparr>, Some (KeyError ''filename''))
             | Some f \<Rightarrow>
                 (p\<lparr>status := ''processing'', progress := 90, filename := Some (path_name f)\<rparr>,
                  None))
          else if s = ''error'' then
            (p\<lparr>status := ''error'',
               error := Some (case d_error d of None \<Rightarrow> ''Unknown error'' | Some e \<Rightarrow> e)\<rparr>,
             None)
          else (p, None))"

text \<open>\<open>progress_hook(d, download_id)\<close>: nothing happens when the job is not registered.\<close>

definition progress_hook ::
  "(string \<Rightarrow> rat option) \<Rightarrow> hook_dict \<Rightarrow> string \<Rightarrow> registry \<Rightarrow> registry \<times> exn option" where
  "progress_hook py_float d did active_downloads =
     (case map_of active_downloads did of
        None \<Rightarrow> (active_downloads, None)
      | Some p \<Rightarrow>
          (case hook_update py_float d p of
             (p', e) \<Rightarrow> (AList.update did p' active_downloads, e)))"

section \<open>Format selection\<close>

text \<open>
  The options the worker passes to the library, as far as they vary: the rest of
  \<open>ydl_opts\<close> is constant.
\<close>

record ydl_opts =
  opt_outtmpl :: string
  opt_format :: string
  opt_extract_audio :: bool
  opt_merge_output_format :: string
  opt_user_agent :: string
  opt_skip_dash :: bool

definition format_best :: string where
  "format_best =
     ''bestvideo[height>=2160]+bestaudio[ext=m4a]/bestvideo[height>=2160]+bestaudio/'' @
     ''bestvideo[height>=1440]+bestaudio[ext=m4a]/bestvideo[height>=1440]+bestaudio/'' @
     ''bestvideo[height>=1080]+bestaudio[ext=m4a]/bestvideo[height>=1080]+bestaudio/'' @
     ''bestvideo[height>=720]+bestaudio[ext=m4a]/bestvideo[height>=720]+bestaudio/'' @
     ''best[height>=1080]/best[height>=720]/best''"

definition format_audio :: string where
  "format_audio =
     ''bestaudio[ext=m4a][abr>=192]/bestaudio[abr>=192]/'' @
     ''bestaudio[ext=m4a]/bestaudio/best[height<=480]''"

definition format_1080p :: string where
  "format_1080p =
     ''bestvideo[height<=1080][height>=1080]+bestaudio[ext=m4a]/'' @
     ''bestvideo[height<=1080][height>=1080]+bestaudio/'' @
     ''best[height<=1080][height>=1080]/'' @
     ''bestvideo[height<=1080]+bestaudio[ext=m4a]/'' @
     ''bestvideo[height<=1080]+bestaudio/'' @
     ''best[height<=1080]/best''"

definition format_720p :: string where
  "format_720p =
     ''bestvideo[height<=720][height>=720]+bestaudio[ext=m4a]/'' @
     ''bestvideo[height<=720][height>=720]+bestaudio/'' @
     ''best[height<=720][height>=720]/'' @
     ''bestvideo[height<=720]+bestaudio[ext=m4a]/'' @
     ''bestvideo[height<=720]+bestaudio/'' @
     ''best[height<=720]/best''"

text \<open>
  Lines 152 to 195. \<open>if custom_format\<close> is false for \<open>None\<close> and for the empty string;
  \<open>quality\<close> is \<open>None\<close> when the request gave \<open>null\<close>.
\<close>

definition select_format :: "string option \<Rightarrow> string option \<Rightarrow> string" where
  "select_format custom_format quality =
     (case custom_format of
        Some (c # cs) \<Rightarrow> c # cs
      | _ \<Rightarrow>
          if quality = Some ''best'' then format_best
          else if quality = Some ''audio'' then format_audio
          else if quality = Some ''1080p'' then format_1080p
          else if quality = Some ''720p'' then format_720p
          else ''best'')"

definition user_agent_windows :: string where
  "user_agent_windows =
     ''Mozilla/5.0 (Windows NT 10.0; Win64; x64) AppleWebKit/537.36 (KHTML, like Gecko) Chrome/91.0.4472.124 Safari/537.36''"

definition user_agent_linux :: string where
  "user_agent_linux =
     ''Mozilla/5.0 (X11; Linux x86_64) AppleWebKit/537.36 (KHTML, like Gecko) Chrome/120.0.0.0 Safari/537.36''"

definition build_opts :: "string \<Rightarrow> string option \<Rightarrow> string option \<Rightarrow> ydl_opts" where
  "build_opts did custom_format quality =
     \<lparr>opt_outtmpl = path_join TEMP_DIR (did @ ''_%(title)s.%(ext)s''),
      opt_format = select_format custom_format quality,
      opt_extract_audio =
        ((custom_format = None \<or> custom_format = Some []) \<and> quality = Some ''audio''),
      opt_merge_output_format = ''mp4'',
      opt_user_agent = user_agent_windows,
      opt_skip_dash = False\<rparr>"

text \<open>Lines 216 to 221: the options of the second attempt keep the format.\<close>

definition retry_opts :: "ydl_opts \<Rightarrow> ydl_opts" where
  "retry_opts opts =
     opts\<lparr>opt_user_agent := user_agent_linux, opt_skip_dash := True,
          opt_format := opt_format opts\<rparr>"








section \<open>The download worker\<close>

text \<open>
  A directory entry: its name, its modification time in seconds, whether it is a regular
  file, and whether \<open>unlink\<close> succeeds on it. The two directories are listed in the
  order the operating system scans them.
\<close>

record dir_entry =
  e_name :: string
  e_mtime :: int
  e_is_file :: bool
  e_unlink_ok :: bool

record fs_state =
  temp_files :: "dir_entry list"
  download_files :: "dir_entry list"

text \<open>
  One call of \<open>ydl.download([url])\<close>, as the library and the network decide it: the hook
  calls it makes, in order, the exception it ends with, if any, and the temporary
  directory as it leaves it.
\<close>

record attempt =
  at_hooks :: "hook_dict list"
  at_raises :: "exn option"
  at_temp :: "dir_entry list"

text \<open>
  What the worker takes from outside the repository: the built-in \<open>float\<close>, the library,
  werkzeug's \<open>secure_filename\<close>, whether \<open>shutil.move\<close> raises, and the clock.
\<close>

record environment =
  env_float :: "string \<Rightarrow> rat option"
  env_ydl :: "ydl_opts \<Rightarrow> string \<Rightarrow> attempt"
  env_secure_filename :: "string \<Rightarrow> string"
  env_move :: "exn option"
  env_now :: int

text \<open>The hooks of one attempt: an exception of a hook ends the attempt.\<close>

fun run_hooks ::
  "(string \<Rightarrow> rat option) \<Rightarrow> hook_dict list \<Rightarrow> string \<Rightarrow> registry \<Rightarrow> registry \<times> exn option" where
  "run_hooks pf [] did reg = (reg, None)"
| "run_hooks pf (d # ds) did reg =
     (case progress_hook pf d did reg of
        (reg', Some e) \<Rightarrow> (reg', Some e)
      | (reg', None) \<Rightarrow> run_hooks pf ds did reg')"

definition run_ydl ::
  "environment \<Rightarrow> ydl_opts \<Rightarrow> string \<Rightarrow> string \<Rightarrow> registry
     \<Rightarrow> (registry \<times> dir_entry list) \<times> exn option" where
  "run_ydl env opts url did reg =
     (let att = env_ydl env opts url
      in case run_hooks (env_float env) (at_hooks att) did reg of
           (reg', Some e) \<Rightarrow> ((reg', at_temp att), Some e)
         | (reg', None) \<Rightarrow> ((reg', at_temp att), at_raises att))"

text \<open>Lines 206 to 225: one more attempt after a \<open>DownloadError\<close> that mentions 403.\<close>

definition download_with_retry ::
  "environment \<Rightarrow> ydl_opts \<Rightarrow> string \<Rightarrow> string \<Rightarrow> registry
     \<Rightarrow> (registry \<times> dir_entry list) \<times> exn option" where
  "download_with_retry env opts url did reg =
     (case run_ydl env opts url did reg of
        ((reg1, temp1), Some (DownloadError m)) \<Rightarrow>
          if py_in ''403'' m \<or> py_in ''Forbidden'' m
          then run_ydl env (retry_opts opts) url did reg1
          else ((reg1, temp1), Some (DownloadError m))
      | r \<Rightarrow> r)"

text \<open>\<open>TEMP_DIR.glob(f"{download_id}_*")\<close> and the names it matches.\<close>

definition job_file :: "string \<Rightarrow> dir_entry \<Rightarrow> bool" where
  "job_file did e = prefix (did @ ''_'') (e_name e)"

definition glob_job :: "string \<Rightarrow> dir_entry list \<Rightarrow> dir_entry list" where
  "glob_job did entries = filter (job_file did) entries"

text \<open>Lines 242 to 246: the next candidate name.\<close>

definition next_name :: "string \<Rightarrow> nat \<Rightarrow> string" where
  "next_name final_filename counter =
     (case rsplit_dot final_filename of
        Some (stem, ext) \<Rightarrow> stem @ ''_'' @ str_nat counter @ ''.'' @ ext
      | None \<Rightarrow> final_filename @ ''_'' @ str_nat counter)"

text \<open>
  \<open>final_path.exists()\<close>: the empty name is the downloads directory itself, which exists;
  another name exists when the directory lists it.
\<close>

definition name_exists :: "string list \<Rightarrow> string \<Rightarrow> bool" where
  "name_exists existing final_filename = (final_filename = [] \<or> final_filename \<in> set existing)"

lemma length_next_name: "length final_filename < length (next_name final_filename counter)"
proof (cases "rsplit_dot final_filename")
  case None
  then show ?thesis by (simp add: next_name_def)
next
  case (Some sp)
  obtain stem ext where sp: "sp = (stem, ext)" by (cases sp)
  have dot: "CHR ''.'' \<in> set (rev final_filename)"
    using Some by (simp add: rsplit_dot_def split: if_splits)
  have parts: "stem = rev (drop 1 (dropWhile (\<lambda>c. c \<noteq> CHR ''.'') (rev final_filename)))"
    "ext = rev (takeWhile (\<lambda>c. c \<noteq> CHR ''.'') (rev final_filename))"
    using Some sp by (simp_all add: rsplit_dot_def split: if_splits)
  have "dropWhile (\<lambda>c. c \<noteq> CHR ''.'') (rev final_filename) \<noteq> []"
    using dot by (simp add: dropWhile_eq_Nil_conv)
  then have "length (dropWhile (\<lambda>c. c \<noteq> CHR ''.'') (rev final_filename)) = Suc (length stem)"
    using parts(1) by (cases "dropWhile (\<lambda>c. c \<noteq> CHR ''.'') (rev final_filename)") simp_all
  moreover have "length (takeWhile (\<lambda>c. c \<noteq> CHR ''.'') (rev final_filename))
      + length (dropWhile (\<lambda>c. c \<noteq> CHR ''.'') (rev final_filename)) = length final_filename"
    by (metis length_append length_rev takeWhile_dropWhile_id)
  ultimately have "length final_filename = length stem + length ext + 1"
    using parts(2) by simp
  then show ?thesis using Some sp by (simp add: next_name_def)
qed

lemma length_filter_drop_one:
  "x \<in> set xs \<Longrightarrow> Q x \<Longrightarrow> \<not> P x \<Longrightarrow> (\<And>y. P y \<Longrightarrow> Q y)
     \<Longrightarrow> length (filter P xs) < length (filter Q xs)"
proof (induction xs)
  case Nil
  then show ?case by simp
next
  case (Cons a xs)
  have le: "length (filter P xs) \<le> length (filter Q xs)"
    using Cons.prems(4)
    by (induction xs) (auto simp: le_Suc_eq)
  show ?case
  proof (cases "x = a")
    case True
    then show ?thesis using Cons.prems le by simp
  next
    case False
    then have "length (filter P xs) < length (filter Q xs)"
      using Cons by simp
    then show ?thesis using Cons.prems(4) by auto
  qed
qed

text \<open>Lines 240 to 248: the loop that looks for a free name.\<close>

function unique_name :: "string list \<Rightarrow> string \<Rightarrow> nat \<Rightarrow> string" where
  "unique_name existing final_filename counter =
     (if name_exists existing final_filename
      then unique_name existing (next_name final_filename counter) (counter + 1)
      else final_filename)"
  by pat_completeness auto
termination
proof (relation "measure (\<lambda>(existing, final_filename, counter).
          length (filter (\<lambda>n. length final_filename \<le> length n) ([] # existing)))")
  show "wf (measure (\<lambda>(existing, final_filename, counter).
          length (filter (\<lambda>n. length final_filename \<le> length n) ([] # existing))))"
    by simp
next
  fix existing :: "string list" and final_filename :: string and counter :: nat
  assume ex: "name_exists existing final_filename"
  have mem: "final_filename \<in> set ([] # existing)"
    using ex by (auto simp: name_exists_def)
  have "length (filter (\<lambda>n. length (next_name final_filename counter) \<le> length n) ([] # existing))
        < length (filter (\<lambda>n. length final_filename \<le> length n) ([] # existing))"
  proof (rule length_filter_drop_one [OF mem])
    show "length final_filename \<le> length final_filename" by simp
    show "\<not> length (next_name final_filename counter) \<le> length final_filename"
      using length_next_name [of final_filename counter] by simp
    fix y :: string
    assume "length (next_name final_filename counter) \<le> length y"
    then show "length final_filename \<le> length y"
      using length_next_name [of final_filename counter] by simp
  qed
  then show "((existing, next_name final_filename counter, counter + 1),
              (existing, final_filename, counter))
        \<in> measure (\<lambda>(existing, final_filename, counter).
          length (filter (\<lambda>n. length final_filename \<le> length n) ([] # existing)))"
    by simp
qed

declare unique_name.simps [simp del]

text \<open>Lines 253 to 258: the record of a finished job.\<close>

definition mark_completed :: "string \<Rightarrow> string \<Rightarrow> int \<Rightarrow> DownloadProgress \<Rightarrow> DownloadProgress" where
  "mark_completed final_filename final_path t p =
     p\<lparr>status := ''completed'', progress := 100, filename := Some final_filename,
       file_path := Some final_path, completed_at := Some t\<rparr>"

text \<open>
  Lines 228 to 258, after the library has returned: the file is looked up, renamed and
  moved, and the record is completed; \<open>Inl\<close> is the exception raised on the way.
\<close>

definition finish_download ::
  "environment \<Rightarrow> string \<Rightarrow> registry \<Rightarrow> fs_state \<Rightarrow> exn + (registry \<times> fs_state)" where
  "finish_download env did reg fs =
     (case glob_job did (temp_files fs) of
        [] \<Rightarrow> Inl (Exception
          ''Downloaded file not found. Check if the video is available and not private/restricted.'')
      | downloaded_file # _ \<Rightarrow>
          (let final_filename =
                 unique_name (map e_name (download_files fs))
                   (env_secure_filename env (remove_all (did @ ''_'') (e_name downloaded_file))) 1;
               final_path = path_join DOWNLOAD_DIR final_filename
           in case env_move env of
                Some e \<Rightarrow> Inl e
              | None \<Rightarrow>
                  Inr (AList.map_entry did
                         (mark_completed final_filename final_path (env_now env)) reg,
                       \<lparr>temp_files = remove1 downloaded_file (temp_files fs),
                        download_files =
                          download_files fs @ [downloaded_file\<lparr>e_name := final_filename\<rparr>]\<rparr>)))"

definition msg_403 :: string where
  "msg_403 = ''YouTube blocked the download (403 Forbidden). This video may be restricted or require sign-in. Try a different video or update yt-dlp.''"

definition msg_404 :: string where
  "msg_404 = ''Video not found (404). The video may be private, deleted, or the URL is incorrect.''"

definition msg_copyright :: string where
  "msg_copyright = ''Video is protected by copyright and cannot be downloaded.''"

definition msg_private :: string where
  "msg_private = ''This video is private and cannot be downloaded.''"

definition msg_unavailable :: string where
  "msg_unavailable = ''Video is unavailable in your region or has been removed.''"

text \<open>Lines 267 to 276.\<close>

definition friendly_error :: "string \<Rightarrow> string" where
  "friendly_error error_msg =
     (if py_in ''403'' error_msg \<or> py_in ''Forbidden'' error_msg then msg_403
      else if py_in ''404'' error_msg \<or> py_in ''not found'' (py_lower error_msg) then msg_404
      else if py_in ''copyright'' (py_lower error_msg) then msg_copyright
      else if py_in ''private'' (py_lower error_msg) then msg_private
      else if py_in ''unavailable'' (py_lower error_msg) then msg_unavailable
      else error_msg)"

definition mark_error :: "string \<Rightarrow> DownloadProgress \<Rightarrow> DownloadProgress" where
  "mark_error error_msg p = p\<lparr>status := ''error'', error := Some error_msg\<rparr>"

text \<open>Lines 282 to 287: a file of the job stays only when its \<open>unlink\<close> fails.\<close>

definition cleanup_partial :: "string \<Rightarrow> dir_entry list \<Rightarrow> dir_entry list" where
  "cleanup_partial did entries = filter (\<lambda>e. \<not> (job_file did e \<and> e_unlink_ok e)) entries"

text \<open>Lines 262 to 287: the handler of the worker.\<close>

definition handle_failure :: "string \<Rightarrow> exn \<Rightarrow> registry \<Rightarrow> fs_state \<Rightarrow> registry \<times> fs_state" where
  "handle_failure did e reg fs =
     (AList.map_entry did (mark_error (friendly_error (str_exn e))) reg,
      fs\<lparr>temp_files := cleanup_partial did (temp_files fs)\<rparr>)"

text \<open>
  Lines 120 to 260, the body of the \<open>try\<close>: the registry and the files as the body leaves
  them, and the exception it raises, if any.
\<close>

definition download_body ::
  "environment \<Rightarrow> string \<Rightarrow> string option \<Rightarrow> string \<Rightarrow> string option \<Rightarrow> registry \<Rightarrow> fs_state
     \<Rightarrow> (registry \<times> fs_state) \<times> exn option" where
  "download_body env url quality did custom_format reg fs =
     (case download_with_retry env (build_opts did custom_format quality) url did reg of
        ((reg1, temp1), Some e) \<Rightarrow> ((reg1, fs\<lparr>temp_files := temp1\<rparr>), Some e)
      | ((reg1, temp1), None) \<Rightarrow>
          (case finish_download env did reg1 (fs\<lparr>temp_files := temp1\<rparr>) of
             Inl e \<Rightarrow> ((reg1, fs\<lparr>temp_files := temp1\<rparr>), Some e)
           | Inr st \<Rightarrow> (st, None)))"

text \<open>
  \<open>download_video(url, quality, download_id, custom_format)\<close>. The second component is
  the exception that leaves the thread: the handler itself fails when the job was never
  registered, since \<open>progress_obj\<close> is then unbound.
\<close>

definition download_video ::
  "environment \<Rightarrow> string \<Rightarrow> string option \<Rightarrow> string \<Rightarrow> string option \<Rightarrow> registry \<Rightarrow> fs_state
     \<Rightarrow> (registry \<times> fs_state) \<times> exn option" where
  "download_video env url quality did custom_format reg fs =
     (case map_of reg did of
        None \<Rightarrow>
          ((reg, fs), Some (UnboundLocalError
             ''cannot access local variable 'progress_obj' where it is not associated with a value''))
      | Some _ \<Rightarrow>
          (case download_body env url quality did custom_format reg fs of
             ((reg1, fs1), Some e) \<Rightarrow> (handle_failure did e reg1 fs1, None)
           | (st, None) \<Rightarrow> (st, None)))"

section \<open>The life of one job, transition by transition\<close>

text \<open>
  The worker changes its record in steps: one per hook call, and a last one when it
  completes the job or handles a failure. \<open>worker_events\<close> lists the steps of a run of
  \<open>download_video\<close>, and \<open>apply_events\<close> replays them on the record.
\<close>

datatype event =
    Hook hook_dict
  | Completed string string int
  | Failed string

fun apply_event :: "(string \<Rightarrow> rat option) \<Rightarrow> event \<Rightarrow> DownloadProgress \<Rightarrow> DownloadProgress" where
  "apply_event pf (Hook d) p = fst (hook_update pf d p)"
| "apply_event pf (Completed final_filename final_path t) p =
     mark_completed final_filename final_path t p"
| "apply_event pf (Failed error_msg) p = mark_error error_msg p"

fun apply_events :: "(string \<Rightarrow> rat option) \<Rightarrow> event list \<Rightarrow> DownloadProgress \<Rightarrow> DownloadProgress" where
  "apply_events pf [] p = p"
| "apply_events pf (ev # evs) p = apply_events pf evs (apply_event pf ev p)"

text \<open>A run of a worker: hook calls, then at most one last step.\<close>

fun is_hook :: "event \<Rightarrow> bool" where
  "is_hook (Hook d) = True"
| "is_hook _ = False"

fun worker_run :: "event list \<Rightarrow> bool" where
  "worker_run [] = True"
| "worker_run [ev] = True"
| "worker_run (ev # evs) = (is_hook ev \<and> worker_run evs)"

section \<open>JSON values, requests and responses\<close>

datatype json = Null | Bool bool | Num int | Str string

text \<open>A dictionary of JSON values, in the order of its keys; \<open>d.get(k)\<close> and \<open>d.get(k, v)\<close>.\<close>

type_synonym pydict = "(string \<times> json) list"

definition dict_get :: "pydict \<Rightarrow> string \<Rightarrow> json" where
  "dict_get d k = (case map_of d k of None \<Rightarrow> Null | Some v \<Rightarrow> v)"

definition dict_get_default :: "pydict \<Rightarrow> string \<Rightarrow> json \<Rightarrow> json" where
  "dict_get_default d k v0 = (case map_of d k of None \<Rightarrow> v0 | Some v \<Rightarrow> v)"

fun truthy :: "json \<Rightarrow> bool" where
  "truthy Null = False"
| "truthy (Bool b) = b"
| "truthy (Num n) = (n \<noteq> 0)"
| "truthy (Str s) = (s \<noteq> [])"

text \<open>\<open>jsonify(body), code\<close>.\<close>

datatype response = Response nat pydict

section \<open>The metadata fetcher\<close>

text \<open>
  The dictionary \<open>extract_info\<close> returns: its scalar entries, and its \<open>formats\<close> entry,
  a list of dictionaries (\<open>None\<close> when the key is missing).
\<close>

record info_dict =
  i_fields :: pydict
  i_formats :: "pydict list option"

record video_info =
  vi_title :: json
  vi_duration :: json
  vi_view_count :: json
  vi_uploader :: json
  vi_upload_date :: json
  vi_description :: string
  vi_thumbnail :: json
  vi_formats :: "pydict list"
  vi_webpage_url :: json

text \<open>Line 91: the entries of the format list that are kept.\<close>

definition has_codec :: "pydict \<Rightarrow> bool" where
  "has_codec f = (dict_get f ''vcodec'' \<noteq> Str ''none'' \<or> dict_get f ''acodec'' \<noteq> Str ''none'')"

text \<open>Lines 92 to 101.\<close>

definition format_entry :: "pydict \<Rightarrow> pydict" where
  "format_entry f =
     [(''format_id'', dict_get f ''format_id''),
      (''ext'', dict_get f ''ext''),
      (''quality'', dict_get_default f ''format_note'' (dict_get_default f ''quality'' (Str ''unknown''))),
      (''filesize'', dict_get f ''filesize''),
      (''vcodec'', dict_get f ''vcodec''),
      (''acodec'', dict_get f ''acodec''),
      (''width'', dict_get f ''width''),
      (''height'', dict_get f ''height'')]"

definition collect_formats :: "info_dict \<Rightarrow> pydict list" where
  "collect_formats info =
     (case i_formats info of
        None \<Rightarrow> []
      | Some fs \<Rightarrow> map format_entry (filter has_codec fs))"

text \<open>
  Line 109: \<open>info.get('description', '')[:200] + '...' if info.get('description') else ''\<close>.
  The conditional expression binds weaker than \<open>+\<close>. A description that is true and not
  a string cannot be sliced.
\<close>

definition not_subscriptable :: "string \<Rightarrow> exn" where
  "not_subscriptable type_name =
     TypeError ([CHR 0x27] @ type_name @ [CHR 0x27] @ '' object is not subscriptable'')"

definition short_description :: "info_dict \<Rightarrow> exn + string" where
  "short_description info =
     (if truthy (dict_get (i_fields info) ''description'')
      then (case dict_get_default (i_fields info) ''description'' (Str []) of
              Str s \<Rightarrow> Inr (take 200 s @ ''...'')
            | Num n \<Rightarrow> Inl (not_subscriptable ''int'')
            | Bool b \<Rightarrow> Inl (not_subscriptable ''bool'')
            | Null \<Rightarrow> Inl (not_subscriptable ''NoneType''))
      else Inr [])"

text \<open>
  \<open>get_video_info(url)\<close>, given what \<open>ydl.extract_info(url, download=False)\<close> does: it
  raises (\<open>Inl\<close>) or returns the dictionary. Line 115 wraps every exception.
\<close>

definition wrap_failure :: "exn \<Rightarrow> exn" where
  "wrap_failure e = Exception (''Failed to extract video info: '' @ str_exn e)"

definition get_video_info :: "(exn + info_dict) \<Rightarrow> string \<Rightarrow> exn + video_info" where
  "get_video_info extracted url =
     (case extracted of
        Inl e \<Rightarrow> Inl (wrap_failure e)
      | Inr info \<Rightarrow>
          (case short_description info of
             Inl e \<Rightarrow> Inl (wrap_failure e)
           | Inr descr \<Rightarrow>
               Inr \<lparr>vi_title = dict_get_default (i_fields info) ''title'' (Str ''Unknown Title''),
                    vi_duration = dict_get (i_fields info) ''duration'',
                    vi_view_count = dict_get (i_fields info) ''view_count'',
                    vi_uploader = dict_get (i_fields info) ''uploader'',
                    vi_upload_date = dict_get (i_fields info) ''upload_date'',
                    vi_description = descr,
                    vi_thumbnail = dict_get (i_fields info) ''thumbnail'',
                    vi_formats = take 20 (collect_formats info),
                    vi_webpage_url = dict_get_default (i_fields info) ''webpage_url'' (Str url)\<rparr>))"

section \<open>Job submission\<close>

text \<open>
  The body of a request as \<open>request.get_json()\<close> returns it. For \<open>quality\<close>, \<open>None\<close> is a
  missing key and \<open>Some None\<close> the value \<open>null\<close>; for the other two, \<open>None\<close> is both.
\<close>

record download_request =
  rq_url :: "string option"
  rq_quality :: "string option option"
  rq_custom_format :: "string option"

definition active_states :: "string list" where
  "active_states = [''starting'', ''downloading'', ''processing'']"

text \<open>Lines 318 and 319.\<close>

definition active_count :: "registry \<Rightarrow> nat" where
  "active_count active_downloads =
     length (filter (\<lambda>d. status d \<in> set active_states) (map snd active_downloads))"

text \<open>The thread \<open>start_download\<close> starts: the arguments of \<open>download_video\<close>.\<close>

record worker_args =
  w_url :: string
  w_quality :: "string option"
  w_download_id :: string
  w_custom_format :: "string option"

definition no_body_message :: string where
  "no_body_message =
     [CHR 0x27] @ ''NoneType'' @ [CHR 0x27] @ '' object has no attribute '' @
     [CHR 0x27] @ ''get'' @ [CHR 0x27]"

text \<open>
  \<open>start_download()\<close>: the response, the registry and the thread started, if any.
  \<open>new_id\<close> is the value of \<open>str(uuid.uuid4())\<close>; a request without a JSON body
  (\<open>None\<close>) fails at \<open>data.get\<close> and is answered by the handler of line 345.
\<close>

definition start_download ::
  "download_request option \<Rightarrow> string \<Rightarrow> registry \<Rightarrow> response \<times> registry \<times> worker_args option" where
  "start_download body new_id active_downloads =
     (case body of
        None \<Rightarrow> (Response 500 [(''error'', Str no_body_message)], active_downloads, None)
      | Some rq \<Rightarrow>
          (case rq_url rq of
             None \<Rightarrow> (Response 400 [(''error'', Str ''URL is required'')], active_downloads, None)
           | Some url \<Rightarrow>
               if url = [] then
                 (Response 400 [(''error'', Str ''URL is required'')], active_downloads, None)
               else if active_count active_downloads \<ge> MAX_CONCURRENT_DOWNLOADS then
                 (Response 429 [(''error'', Str ''Too many concurrent downloads. Please wait.'')],
                  active_downloads, None)
               else
                 (Response 200
                    [(''success'', Bool True), (''download_id'', Str new_id),
                     (''message'', Str ''Download started'')],
                  AList.update new_id (new_DownloadProgress new_id) active_downloads,
                  Some \<lparr>w_url = url,
                        w_quality = (case rq_quality rq of None \<Rightarrow> Some ''best'' | Some q \<Rightarrow> q),
                        w_download_id = new_id,
                        w_custom_format = rq_custom_format rq\<rparr>)))"

section \<open>The routes\<close>

text \<open>
  Every \<open>@app.route\<close> decorator of the file, in order: the rule, its methods and the
  function it registers. A rule is its list of segments between the slashes;
  \<open><download_id>\<close> is a variable, which matches one non-empty segment.
\<close>

datatype http_method = GET | POST | PUT | DELETE

datatype endpoint =
    Get_info
  | Start_download
  | Get_progress
  | Download_file
  | List_downloads
  | Update_ytdlp
  | Get_available_formats
  | Health_check

datatype segment = Lit string | Var string

definition url_map :: "(segment list \<times> http_method list \<times> endpoint) list" where
  "url_map =
     [([Lit [], Lit ''api'', Lit ''info''], [POST], Get_info),
      ([Lit [], Lit ''api'', Lit ''download''], [POST], Start_download),
      ([Lit [], Lit ''api'', Lit ''progress'', Var ''download_id''], [GET], Get_progress),
      ([Lit [], Lit ''api'', Lit ''download'', Var ''download_id'', Lit ''file''], [GET],
       Download_file),
      ([Lit [], Lit ''api'', Lit ''downloads''], [GET], List_downloads),
      ([Lit [], Lit ''api'', Lit ''update-ytdlp''], [POST], Update_ytdlp),
      ([Lit [], Lit ''api'', Lit ''formats''], [POST], Get_available_formats),
      ([Lit [], Lit ''health''], [GET], Health_check)]"

fun match_rule :: "segment list \<Rightarrow> string list \<Rightarrow> bool" where
  "match_rule [] [] = True"
| "match_rule (Lit l # rule) (w # ws) = (l = w \<and> match_rule rule ws)"
| "match_rule (Var v # rule) (w # ws) = (w \<noteq> [] \<and> match_rule rule ws)"
| "match_rule _ _ = False"

text \<open>
  The function a request reaches: 404 when no rule matches the path, 405 when the rules
  that match it do not allow the method.
\<close>

definition dispatch :: "http_method \<Rightarrow> string \<Rightarrow> nat + endpoint" where
  "dispatch m path =
     (case filter (\<lambda>(rule, ms, ep). match_rule rule (split_on CHR ''/'' path)) url_map of
        [] \<Rightarrow> Inl 404
      | matching \<Rightarrow>
          (case filter (\<lambda>(rule, ms, ep). m \<in> set ms) matching of
             [] \<Rightarrow> Inl 405
           | (rule, ms, ep) # _ \<Rightarrow> Inr ep))"

section \<open>The function \<open>test_url\<close> and the block after its last return\<close>

text \<open>
  \<open>test_url\<close> has no decorator. Its body is a \<open>try\<close> statement (lines 489 to 531)
  followed by a second \<open>try\<close> statement (lines 533 to 580), the block that cleans up old
  downloads. A statement either returns a response or lets control go on.
\<close>

datatype 'a flow = Return 'a | Next_statement

text \<open>Lines 517 to 524.\<close>

definition probe_message :: "string \<Rightarrow> string" where
  "probe_message error_msg =
     (if py_in ''403'' error_msg then ''URL is blocked (403 Forbidden)''
      else if py_in ''404'' error_msg then ''Video not found (404)''
      else if py_in ''private'' (py_lower error_msg) then ''Video is private''
      else ''Error: '' @ error_msg)"

definition probe_failed :: "string \<Rightarrow> response" where
  "probe_failed error_msg =
     Response 200
       [(''success'', Bool True), (''accessible'', Bool False),
        (''message'', Str (probe_message error_msg)), (''error'', Str error_msg)]"

text \<open>
  Lines 489 to 531, given the body of the request and what \<open>extract_info\<close> does: every
  path of the \<open>try\<close> and of its handler ends in a \<open>return\<close>.
\<close>

definition test_url_probe :: "download_request option \<Rightarrow> (exn + info_dict) \<Rightarrow> response flow" where
  "test_url_probe body extracted =
     (case body of
        None \<Rightarrow> Return (probe_failed no_body_message)
      | Some rq \<Rightarrow>
          (case rq_url rq of
             None \<Rightarrow> Return (Response 400 [(''error'', Str ''URL is required'')])
           | Some url \<Rightarrow>
               if url = [] then Return (Response 400 [(''error'', Str ''URL is required'')])
               else
                 (case extracted of
                    Inl e \<Rightarrow> Return (probe_failed (str_exn e))
                  | Inr info \<Rightarrow>
                      Return (Response 200
                        [(''success'', Bool True), (''accessible'', Bool True),
                         (''title'', dict_get_default (i_fields info) ''title'' (Str ''Unknown'')),
                         (''message'', Str ''URL is accessible'')]))))"

text \<open>The age limit in seconds, and the state the block works on.\<close>

definition max_age :: int where
  "max_age = MAX_FILE_AGE_HOURS * 3600"

record app_state =
  st_downloads :: registry
  st_fs :: fs_state

text \<open>
  Lines 538 to 549: the jobs completed before the cut-off. The file of such a job is
  unlinked when it exists, and counted when the unlink succeeds; the job is listed for
  removal either way. The result is the downloads directory, the count and the list.
\<close>

fun sweep_jobs ::
  "int \<Rightarrow> registry \<Rightarrow> dir_entry list \<Rightarrow> nat \<Rightarrow> string list
     \<Rightarrow> dir_entry list \<times> nat \<times> string list" where
  "sweep_jobs cutoff_time [] files cleaned_count to_remove = (files, cleaned_count, to_remove)"
| "sweep_jobs cutoff_time ((did, p) # rest) files cleaned_count to_remove =
     (case completed_at p of
        None \<Rightarrow> sweep_jobs cutoff_time rest files cleaned_count to_remove
      | Some t \<Rightarrow>
          if t < cutoff_time then
            (case file_path p of
               None \<Rightarrow> sweep_jobs cutoff_time rest files cleaned_count (to_remove @ [did])
             | Some fp \<Rightarrow>
                 (case find (\<lambda>e. path_join DOWNLOAD_DIR (e_name e) = fp) files of
                    None \<Rightarrow> sweep_jobs cutoff_time rest files cleaned_count (to_remove @ [did])
                  | Some e \<Rightarrow>
                      if e_unlink_ok e
                      then sweep_jobs cutoff_time rest (remove1 e files) (cleaned_count + 1)
                             (to_remove @ [did])
                      else sweep_jobs cutoff_time rest files cleaned_count (to_remove @ [did])))
          else sweep_jobs cutoff_time rest files cleaned_count to_remove)"

text \<open>Lines 556 to 564: the files of the downloads directory older than the limit.\<close>

definition orphaned :: "int \<Rightarrow> dir_entry \<Rightarrow> bool" where
  "orphaned t e = (e_is_file e \<and> t - e_mtime e > max_age \<and> e_unlink_ok e)"

text \<open>Lines 533 to 577.\<close>

definition cleanup_block :: "int \<Rightarrow> app_state \<Rightarrow> response \<times> app_state" where
  "cleanup_block t st =
     (case sweep_jobs (t - max_age) (st_downloads st) (download_files (st_fs st)) 0 [] of
        (files, cleaned_jobs, to_remove) \<Rightarrow>
          (let cleaned_count = cleaned_jobs + length (filter (orphaned t) files)
           in (Response 200
                 [(''success'', Bool True), (''cleaned_files'', Num (int cleaned_count)),
                  (''message'', Str (''Cleaned up '' @ str_nat cleaned_count @ '' old files''))],
               \<lparr>st_downloads = foldl (\<lambda>r did. AList.delete did r) (st_downloads st) to_remove,
                st_fs = \<lparr>temp_files = filter (\<lambda>e. \<not> e_unlink_ok e) (temp_files (st_fs st)),
                         download_files = filter (\<lambda>e. \<not> orphaned t e) files\<rparr>\<rparr>)))"

text \<open>\<open>test_url()\<close>: the second statement runs only when the first lets control go on.\<close>

definition test_url ::
  "download_request option \<Rightarrow> (exn + info_dict) \<Rightarrow> int \<Rightarrow> app_state \<Rightarrow> response \<times> app_state" where
  "test_url body extracted t st =
     (case test_url_probe body extracted of
        Return r \<Rightarrow> (r, st)
      | Next_statement \<Rightarrow> cleanup_block t st)"

text \<open>
  A request to the application, as far as the registry and the files go: what the
  registered function does to them. Only \<open>start_download\<close> changes the registry; the
  other registered functions read it.
\<close>

definition handle_request ::
  "http_method \<Rightarrow> string \<Rightarrow> download_request option \<Rightarrow> string \<Rightarrow> app_state
     \<Rightarrow> (nat + endpoint) \<times> app_state" where
  "handle_request m path body new_id st =
     (case dispatch m path of
        Inl code \<Rightarrow> (Inl code, st)
      | Inr Start_download \<Rightarrow>
          (case start_download body new_id (st_downloads st) of
             (r, reg, w) \<Rightarrow> (Inr Start_download, st\<lparr>st_downloads := reg\<rparr>))
      | Inr ep \<Rightarrow> (Inr ep, st))"

text \<open>
  The scenario of the retention test: one job completed at hour 0 and one at hour 24,
  each with its file in the downloads directory.
\<close>

definition old_job :: DownloadProgress where
  "old_job = mark_completed ''old.mp4'' ''downloads/old.mp4'' 0 (new_DownloadProgress ''a'')"

definition new_job :: DownloadProgress where
  "new_job = mark_completed ''new.mp4'' ''downloads/new.mp4'' 86400 (new_DownloadProgress ''b'')"

definition two_jobs :: app_state where
  "two_jobs =
     \<lparr>st_downloads = [(''a'', old_job), (''b'', new_job)],
      st_fs = \<lparr>temp_files = [],
               download_files =
                 [\<lparr>e_name = ''old.mp4'', e_mtime = 0, e_is_file = True, e_unlink_ok = True\<rparr>,
                  \<lparr>e_name = ''new.mp4'', e_mtime = 86400, e_is_file = True,
                   e_unlink_ok = True\<rparr>]\<rparr>\<rparr>"

section \<open>Conditions on the callbacks, and a library that replays them\<close>

text \<open>
  A callback of the \<open>downloading\<close> phase reports a progress within range when the bytes
  downloaded are between 0 and the total, or, where the percentage string is used, the
  number parsed from it is between 0 and 100.
\<close>

definition percent_in_range :: "(string \<Rightarrow> rat option) \<Rightarrow> hook_dict \<Rightarrow> bool" where
  "percent_in_range pf d =
     (case d_percent_str d of
        None \<Rightarrow> True
      | Some s \<Rightarrow>
          (case pf (remove_char CHR ''%'' (py_strip s)) of
             None \<Rightarrow> True
           | Some v \<Rightarrow> 0 \<le> v \<and> v \<le> 100))"

definition hook_in_range :: "(string \<Rightarrow> rat option) \<Rightarrow> hook_dict \<Rightarrow> bool" where
  "hook_in_range pf d =
     (if d_status d = Some ''downloading'' then
        (case d_total_bytes d of
           None \<Rightarrow> percent_in_range pf d
         | Some t \<Rightarrow>
             if t \<noteq> 0 then
               (case d_downloaded_bytes d of
                  None \<Rightarrow> True
                | Some n \<Rightarrow> 0 \<le> n \<and> n \<le> t)
             else percent_in_range pf d)
      else True)"

fun event_in_range :: "(string \<Rightarrow> rat option) \<Rightarrow> event \<Rightarrow> bool" where
  "event_in_range pf (Hook d) = hook_in_range pf d"
| "event_in_range pf _ = True"

text \<open>A callback of the \<open>error\<close> phase.\<close>

fun reports_error :: "event \<Rightarrow> bool" where
  "reports_error (Hook d) = (d_status d = Some ''error'')"
| "reports_error _ = False"

text \<open>
  An environment for examples: the library makes the given hook calls, ends as given and
  leaves the given files; \<open>float\<close> parses nothing, names are already secure, the move
  succeeds and the clock shows 0.
\<close>

definition replay_env :: "hook_dict list \<Rightarrow> exn option \<Rightarrow> dir_entry list \<Rightarrow> environment" where
  "replay_env hooks raises entries =
     \<lparr>env_float = (\<lambda>s. None),
      env_ydl = (\<lambda>opts url. \<lparr>at_hooks = hooks, at_raises = raises, at_temp = entries\<rparr>),
      env_secure_filename = (\<lambda>s. s),
      env_move = None,
      env_now = 0\<rparr>"

text \<open>
  The record of a job while its worker is still in the library, and the same with no
  error recorded yet.
\<close>

definition in_flight :: "DownloadProgress \<Rightarrow> bool" where
  "in_flight p =
     (file_path p = None \<and> status p \<noteq> ''completed''
      \<and> (status p = ''error'' \<longrightarrow> error p \<noteq> None))"

definition error_free :: "DownloadProgress \<Rightarrow> bool" where
  "error_free p = (in_flight p \<and> error p = None \<and> status p \<noteq> ''error'')"

definition error_report :: hook_dict where
  "error_report =
     \<lparr>d_status = Some ''error'', d_total_bytes = None, d_downloaded_bytes = None,
      d_percent_str = None, d_filename = None, d_error = None\<rparr>"

definition bytes_report :: "int \<Rightarrow> int \<Rightarrow> hook_dict" where
  "bytes_report n t =
     \<lparr>d_status = Some ''downloading'', d_total_bytes = Some t, d_downloaded_bytes = Some n,
      d_percent_str = None, d_filename = None, d_error = None\<rparr>"


section \<open>Properties of the helpers\<close>

text \<open>\<open>py_in\<close> is the contiguous-sublist relation of the library.\<close>

lemma py_in_sublist: "py_in xs ys = sublist xs ys"
  by (induction ys) (auto simp: sublist_Cons_right)

text \<open>The loop ends on a name that does not exist, and keeps a name that is free.\<close>

lemma unique_name_free: "\<not> name_exists existing (unique_name existing final_filename counter)"
  by (induction existing final_filename counter rule: unique_name.induct)
     (subst unique_name.simps, simp)

lemma unique_name_keeps:
  "\<not> name_exists existing final_filename
     \<Longrightarrow> unique_name existing final_filename counter = final_filename"
  by (subst unique_name.simps) simp

section \<open>File name collisions\<close>

text \<open>
  Claim C3. With \<open>video.mp4\<close> in the downloads directory, a second job with the same
  name is saved as \<open>video_1.mp4\<close>. With both of them there, the loop of lines 241 to 248
  splits the name it has already changed, so the third job is saved as
  \<open>video_1_2.mp4\<close> and not as \<open>video_2.mp4\<close>: the suffixes pile up.
\<close>

theorem collision_third_name:
  "unique_name [''video.mp4''] ''video.mp4'' 1 = ''video_1.mp4'' \<and>
   unique_name [''video.mp4'', ''video_1.mp4''] ''video.mp4'' 1 = ''video_1_2.mp4''"
  by code_simp

section \<open>The format chain of 1080p\<close>











section \<open>The metadata fetcher: failures\<close>

text \<open>
  Claim C8, as amended. Whatever exception the library raises, \<open>get_video_info\<close> raises
  one exception whose message is the fixed text \<open>Failed to extract video info: \<close>
  followed by the message of the library, unchanged: no canned text replaces it.
\<close>

theorem fetch_failure_prefixed:
  "get_video_info (Inl e) url = Inl (Exception (''Failed to extract video info: '' @ str_exn e))"
  by (simp add: get_video_info_def wrap_failure_def)

text \<open>
  Claim C8, counterexample. The message of the exception is not the message of the
  library: for \<open>ERROR: Private video\<close> it is
  \<open>Failed to extract video info: ERROR: Private video\<close>.
\<close>

theorem fetch_failure_not_verbatim:
  "get_video_info (Inl (DownloadError ''ERROR: Private video'')) ''u'' =
     Inl (Exception ''Failed to extract video info: ERROR: Private video'') \<and>
   str_exn (Exception ''Failed to extract video info: ERROR: Private video'')
     \<noteq> ''ERROR: Private video''"
  by (simp add: get_video_info_def wrap_failure_def)

section \<open>The metadata fetcher: results\<close>

lemma format_entry_codecs:
  "dict_get (format_entry g) ''vcodec'' = dict_get g ''vcodec''"
  "dict_get (format_entry g) ''acodec'' = dict_get g ''acodec''"
  by (simp_all add: format_entry_def dict_get_def [of "_ # _"])

lemma collect_formats_kept:
  assumes "f \<in> set (collect_formats info)"
  shows "dict_get f ''vcodec'' \<noteq> Str ''none'' \<or> dict_get f ''acodec'' \<noteq> Str ''none''"
proof -
  obtain g where "f = format_entry g" "has_codec g"
    using assms by (auto simp: collect_formats_def split: option.splits)
  then show ?thesis
    by (simp add: format_entry_codecs has_codec_def)
qed

text \<open>
  Claim C9, as amended. When \<open>get_video_info\<close> returns, the description is empty when
  the video has none, and otherwise its first 200 characters followed by \<open>...\<close>, whether
  or not anything was cut: at most 203 characters. The formats are the first 20 entries
  of the format list whose \<open>vcodec\<close> or \<open>acodec\<close> is not \<open>none\<close>.
\<close>

theorem fetch_success:
  assumes "get_video_info (Inr info) url = Inr v"
  shows "vi_description v =
           (case dict_get (i_fields info) ''description'' of
              Str s \<Rightarrow> if s = [] then [] else take 200 s @ ''...''
            | _ \<Rightarrow> [])
       \<and> length (vi_description v) \<le> 203
       \<and> vi_formats v =
           take 20 (map format_entry
             (filter has_codec (case i_formats info of None \<Rightarrow> [] | Some fs \<Rightarrow> fs)))
       \<and> length (vi_formats v) \<le> 20
       \<and> (\<forall>f \<in> set (vi_formats v).
             dict_get f ''vcodec'' \<noteq> Str ''none'' \<or> dict_get f ''acodec'' \<noteq> Str ''none'')"
proof -
  obtain descr where d: "short_description info = Inr descr"
    and v: "v = \<lparr>vi_title = dict_get_default (i_fields info) ''title'' (Str ''Unknown Title''),
                    vi_duration = dict_get (i_fields info) ''duration'',
                    vi_view_count = dict_get (i_fields info) ''view_count'',
                    vi_uploader = dict_get (i_fields info) ''uploader'',
                    vi_upload_date = dict_get (i_fields info) ''upload_date'',
                    vi_description = descr,
                    vi_thumbnail = dict_get (i_fields info) ''thumbnail'',
                    vi_formats = take 20 (collect_formats info),
                    vi_webpage_url = dict_get_default (i_fields info) ''webpage_url'' (Str url)\<rparr>"
    using assms by (auto simp: get_video_info_def split: sum.splits)
  have descr: "descr = (case dict_get (i_fields info) ''description'' of
              Str s \<Rightarrow> if s = [] then [] else take 200 s @ ''...''
            | _ \<Rightarrow> [])"
    using d
    by (auto simp: short_description_def dict_get_def dict_get_default_def
             split: if_splits option.splits json.splits)
  have len: "length descr \<le> 203"
    unfolding descr by (simp split: json.splits)
  have fm: "take 20 (collect_formats info) = take 20 (map format_entry
             (filter has_codec (case i_formats info of None \<Rightarrow> [] | Some fs \<Rightarrow> fs)))"
    by (simp add: collect_formats_def split: option.splits)
  have kept: "\<forall>f \<in> set (take 20 (collect_formats info)).
             dict_get f ''vcodec'' \<noteq> Str ''none'' \<or> dict_get f ''acodec'' \<noteq> Str ''none''"
    using collect_formats_kept by (meson in_set_takeD)
  show ?thesis
    using descr len fm kept by (simp add: v)
qed

text \<open>
  Claim C9, witness: a video with the description \<open>hello\<close> and two formats, of which one
  has neither codec.
\<close>

theorem fetch_success_witness:
  "(case get_video_info (Inr \<lparr>i_fields = [(''description'', Str ''hello'')],
        i_formats = Some [[(''vcodec'', Str ''none''), (''acodec'', Str ''none'')],
                          [(''vcodec'', Str ''avc1''), (''acodec'', Str ''none'')]]\<rparr>) ''u'' of
      Inl e \<Rightarrow> False
    | Inr v \<Rightarrow> vi_description v = ''hello...'' \<and> length (vi_formats v) = 1)"
proof -
  let ?info = "\<lparr>i_fields = [(''description'', Str ''hello'')],
        i_formats = Some [[(''vcodec'', Str ''none''), (''acodec'', Str ''none'')],
                          [(''vcodec'', Str ''avc1''), (''acodec'', Str ''none'')]]\<rparr>"
  obtain v where v: "get_video_info (Inr ?info) ''u'' = Inr v"
    by (simp add: get_video_info_def short_description_def dict_get_def dict_get_default_def)
  from fetch_success [OF v] show ?thesis
    by (simp add: v dict_get_def has_codec_def)
qed

text \<open>
  Claim C9, counterexample. The description \<open>hi\<close> has two characters, nothing is cut, and
  the result is \<open>hi...\<close>.
\<close>

theorem ellipsis_without_truncation:
  "(case get_video_info (Inr \<lparr>i_fields = [(''description'', Str ''hi'')], i_formats = None\<rparr>) ''u'' of
      Inl e \<Rightarrow> None
    | Inr v \<Rightarrow> Some (vi_description v)) = Some ''hi...''"
  by (simp add: get_video_info_def short_description_def dict_get_def dict_get_default_def)

section \<open>The phases of the progress hook\<close>








section \<open>The concurrency gate\<close>

lemma active_count_states:
  "active_count reg =
     length (filter (\<lambda>(k, p). status p = ''starting'' \<or> status p = ''downloading''
                               \<or> status p = ''processing'') reg)"
  by (induction reg) (auto simp: active_count_def active_states_def)

text \<open>
  Claim C2, as amended. For a submission whose body has a non-empty \<open>url\<close>: when fewer
  than 3 records of the registry are in the states \<open>starting\<close>, \<open>downloading\<close> or
  \<open>processing\<close>, the job is admitted (a fresh record is stored under the new identifier
  and the worker is started); when 3 or more are, the answer is 429 and the registry is
  unchanged.
\<close>

theorem start_download_gate:
  assumes "rq_url rq = Some url" and "url \<noteq> []"
  shows "(active_count reg < 3 \<longrightarrow>
           start_download (Some rq) new_id reg =
             (Response 200 [(''success'', Bool True), (''download_id'', Str new_id),
                            (''message'', Str ''Download started'')],
              AList.update new_id (new_DownloadProgress new_id) reg,
              Some \<lparr>w_url = url,
                    w_quality = (case rq_quality rq of None \<Rightarrow> Some ''best'' | Some q \<Rightarrow> q),
                    w_download_id = new_id, w_custom_format = rq_custom_format rq\<rparr>))
       \<and> (3 \<le> active_count reg \<longrightarrow>
           start_download (Some rq) new_id reg =
             (Response 429 [(''error'', Str ''Too many concurrent downloads. Please wait.'')],
              reg, None))
       \<and> active_count reg =
           length (filter (\<lambda>(k, p). status p = ''starting'' \<or> status p = ''downloading''
                                     \<or> status p = ''processing'') reg)"
  using assms
  by (auto simp: start_download_def MAX_CONCURRENT_DOWNLOADS_def active_count_states)

text \<open>
  Claim C2, witness: with two jobs starting and one processing the submission is
  rejected; with the third one completed it is admitted.
\<close>

theorem start_download_gate_witness:
  "start_download (Some \<lparr>rq_url = Some ''u'', rq_quality = None, rq_custom_format = None\<rparr>) ''id''
     [(''a'', new_DownloadProgress ''a''), (''b'', new_DownloadProgress ''b''),
      (''c'', (new_DownloadProgress ''c'')\<lparr>status := ''processing''\<rparr>)]
   = (Response 429 [(''error'', Str ''Too many concurrent downloads. Please wait.'')],
      [(''a'', new_DownloadProgress ''a''), (''b'', new_DownloadProgress ''b''),
       (''c'', (new_DownloadProgress ''c'')\<lparr>status := ''processing''\<rparr>)], None)
  \<and> start_download (Some \<lparr>rq_url = Some ''u'', rq_quality = None, rq_custom_format = None\<rparr>) ''id''
     [(''a'', new_DownloadProgress ''a''), (''b'', new_DownloadProgress ''b''),
      (''c'', (new_DownloadProgress ''c'')\<lparr>status := ''completed''\<rparr>)]
   = (Response 200 [(''success'', Bool True), (''download_id'', Str ''id''),
                    (''message'', Str ''Download started'')],
      [(''a'', new_DownloadProgress ''a''), (''b'', new_DownloadProgress ''b''),
       (''c'', (new_DownloadProgress ''c'')\<lparr>status := ''completed''\<rparr>),
       (''id'', new_DownloadProgress ''id'')],
      Some \<lparr>w_url = ''u'', w_quality = Some ''best'', w_download_id = ''id'',
            w_custom_format = None\<rparr>)"
  using
    start_download_gate [of "\<lparr>rq_url = Some ''u'', rq_quality = None, rq_custom_format = None\<rparr>"
      "''u''" "[(''a'', new_DownloadProgress ''a''), (''b'', new_DownloadProgress ''b''),
      (''c'', (new_DownloadProgress ''c'')\<lparr>status := ''processing''\<rparr>)]" "''id''"]
    start_download_gate [of "\<lparr>rq_url = Some ''u'', rq_quality = None, rq_custom_format = None\<rparr>"
      "''u''" "[(''a'', new_DownloadProgress ''a''), (''b'', new_DownloadProgress ''b''),
      (''c'', (new_DownloadProgress ''c'')\<lparr>status := ''completed''\<rparr>)]" "''id''"]
  by (simp add: new_DownloadProgress_def)

text \<open>
  Claim C2, counterexample. A submission without \<open>url\<close> to an empty registry: no record
  is active, and the job is not admitted; the answer is 400.
\<close>

theorem start_download_without_url:
  "start_download (Some \<lparr>rq_url = None, rq_quality = None, rq_custom_format = None\<rparr>) ''id'' []
     = (Response 400 [(''error'', Str ''URL is required'')], [], None)
   \<and> active_count [] < 3"
  by (simp add: start_download_def active_count_def)

section \<open>The clean-up block\<close>

lemma test_url_probe_returns: "test_url_probe body extracted \<noteq> Next_statement"
  by (simp add: test_url_probe_def split: option.splits sum.splits)

lemma dispatch_cleanup: "dispatch m ''/api/cleanup'' = Inl 404"
  by (simp add: dispatch_def url_map_def)

lemma dispatch_test_url: "dispatch m ''/api/test-url'' = Inl 404"
  by (simp add: dispatch_def url_map_def)

text \<open>
  What the block would do at 25 hours, were it run: the job completed at hour 0 goes with
  its file, and the job completed at hour 24 stays.
\<close>

lemma cleanup_block_two_jobs:
  "cleanup_block 90000 two_jobs =
     (Response 200 [(''success'', Bool True), (''cleaned_files'', Num 1),
                    (''message'', Str ''Cleaned up 1 old files'')],
      \<lparr>st_downloads = [(''b'', new_job)],
       st_fs = \<lparr>temp_files = [],
                download_files =
                  [\<lparr>e_name = ''new.mp4'', e_mtime = 86400, e_is_file = True,
                    e_unlink_ok = True\<rparr>]\<rparr>\<rparr>)"
  by code_simp

text \<open>
  Claim C4. No route leads to the block: \<open>/api/cleanup\<close> and \<open>/api/test-url\<close> match no
  rule, whatever the method, so a request to \<open>/api/cleanup\<close> is answered 404 and leaves
  the registry and the files as they are; and \<open>test_url\<close>, which holds the block, returns
  before it on every path, so a call of \<open>test_url\<close> changes nothing either.
\<close>

theorem cleanup_unreachable:
  "dispatch m ''/api/cleanup'' = Inl 404
   \<and> dispatch m ''/api/test-url'' = Inl 404
   \<and> handle_request m ''/api/cleanup'' body new_id st = (Inl 404, st)
   \<and> handle_request POST ''/api/cleanup'' None [] two_jobs = (Inl 404, two_jobs)
   \<and> test_url_probe body extracted \<noteq> Next_statement
   \<and> snd (test_url body extracted t st) = st"
proof -
  have "snd (test_url body extracted t st) = st"
    using test_url_probe_returns [of body extracted]
    by (cases "test_url_probe body extracted") (simp_all add: test_url_def)
  then show ?thesis
    by (simp add: dispatch_cleanup dispatch_test_url handle_request_def test_url_probe_returns)
qed

section \<open>The record along a run of the worker\<close>

lemma hook_update_weak:
  assumes "file_path p = None" "status p \<noteq> ''completed''" "status p = ''error'' \<longrightarrow> error p \<noteq> None"
  shows "file_path (fst (hook_update pf d p)) = None
     \<and> status (fst (hook_update pf d p)) \<noteq> ''completed''
     \<and> (status (fst (hook_update pf d p)) = ''error'' \<longrightarrow> error (fst (hook_update pf d p)) \<noteq> None)"
  using assms
  by (auto simp: hook_update_def percent_fallback_def split: option.splits)

lemma hook_update_error_free:
  assumes "d_status d \<noteq> Some ''error''" "error p = None" "status p \<noteq> ''error''"
  shows "error (fst (hook_update pf d p)) = None \<and> status (fst (hook_update pf d p)) \<noteq> ''error''"
  using assms
  by (auto simp: hook_update_def percent_fallback_def split: option.splits)

lemma in_flight_hook: "in_flight p \<Longrightarrow> in_flight (fst (hook_update pf d p))"
  using hook_update_weak [of p pf d] by (simp add: in_flight_def)

lemma worker_run_weak:
  assumes "worker_run evs" "in_flight p"
  shows "(file_path (apply_events pf evs p) \<noteq> None) = (status (apply_events pf evs p) = ''completed'')
       \<and> (status (apply_events pf evs p) = ''error'' \<longrightarrow> error (apply_events pf evs p) \<noteq> None)"
  using assms
proof (induction evs arbitrary: p rule: worker_run.induct)
  case 1
  then show ?case by (simp add: in_flight_def)
next
  case (2 ev)
  show ?case
  proof (cases ev)
    case (Hook d)
    then show ?thesis using in_flight_hook [OF 2(2), of pf d] by (simp add: in_flight_def)
  next
    case (Completed a b c)
    then show ?thesis by (simp add: mark_completed_def)
  next
    case (Failed m)
    then show ?thesis using 2(2) by (simp add: mark_error_def in_flight_def)
  qed
next
  case (3 ev ev' evs)
  then obtain d where ev: "ev = Hook d" by (cases ev) auto
  have f: "in_flight (apply_event pf ev p)"
    using in_flight_hook [OF 3(3)] ev by simp
  have w: "worker_run (ev' # evs)" using 3(2) by simp
  have eq: "apply_events pf (ev # ev' # evs) p = apply_events pf (ev' # evs) (apply_event pf ev p)"
    by simp
  show ?case unfolding eq by (rule 3(1) [OF w f])
qed

lemma error_free_hook:
  "error_free p \<Longrightarrow> d_status d \<noteq> Some ''error'' \<Longrightarrow> error_free (fst (hook_update pf d p))"
  using hook_update_error_free [of d p pf] in_flight_hook [of p pf d] by (simp add: error_free_def)

lemma worker_run_strong:
  assumes "worker_run evs" "error_free p" "list_all (\<lambda>ev. \<not> reports_error ev) evs"
  shows "(error (apply_events pf evs p) \<noteq> None) = (status (apply_events pf evs p) = ''error'')
       \<and> \<not> (file_path (apply_events pf evs p) \<noteq> None \<and> error (apply_events pf evs p) \<noteq> None)"
  using assms
proof (induction evs arbitrary: p rule: worker_run.induct)
  case 1
  then show ?case by (simp add: error_free_def)
next
  case (2 ev)
  show ?case
  proof (cases ev)
    case (Hook d)
    then show ?thesis using error_free_hook [OF 2(2), of d pf] 2(3) by (simp add: error_free_def in_flight_def)
  next
    case (Completed a b c)
    then show ?thesis using 2(2) by (simp add: mark_completed_def error_free_def)
  next
    case (Failed m)
    then show ?thesis using 2(2) by (simp add: mark_error_def error_free_def in_flight_def)
  qed
next
  case (3 ev ev' evs)
  then obtain d where ev: "ev = Hook d" by (cases ev) auto
  have c: "error_free (apply_event pf ev p)"
    using error_free_hook [OF 3(3), of d pf] ev 3(4) by simp
  have w: "worker_run (ev' # evs)" using 3(2) by simp
  have l: "list_all (\<lambda>ev. \<not> reports_error ev) (ev' # evs)" using 3(4) by simp
  have eq: "apply_events pf (ev # ev' # evs) p = apply_events pf (ev' # evs) (apply_event pf ev p)"
    by simp
  show ?case unfolding eq by (rule 3(1) [OF w c l])
qed

lemma error_free_new: "error_free (new_DownloadProgress did)"
  by (simp add: error_free_def in_flight_def new_DownloadProgress_def)

text \<open>
  Claim C1, as amended. After every step of a worker on the record of its job (a hook
  call, the completion or the handling of a failure): \<open>file_path\<close> is set if and only
  if the status is \<open>completed\<close>; when the status is \<open>error\<close>, \<open>error\<close> is set; and as long
  as no hook call has reported the \<open>error\<close> phase, \<open>error\<close> is set only when the status is
  \<open>error\<close>, and \<open>file_path\<close> and \<open>error\<close> are not both set.
\<close>

theorem job_record_invariant:
  assumes "worker_run evs"
  shows "((file_path (apply_events pf evs (new_DownloadProgress did)) \<noteq> None)
            = (status (apply_events pf evs (new_DownloadProgress did)) = ''completed''))
       \<and> (status (apply_events pf evs (new_DownloadProgress did)) = ''error''
            \<longrightarrow> error (apply_events pf evs (new_DownloadProgress did)) \<noteq> None)
       \<and> (list_all (\<lambda>ev. \<not> reports_error ev) evs \<longrightarrow>
            ((error (apply_events pf evs (new_DownloadProgress did)) \<noteq> None)
               = (status (apply_events pf evs (new_DownloadProgress did)) = ''error''))
            \<and> \<not> (file_path (apply_events pf evs (new_DownloadProgress did)) \<noteq> None
                  \<and> error (apply_events pf evs (new_DownloadProgress did)) \<noteq> None))"
  using worker_run_weak [OF assms, of "new_DownloadProgress did" pf]
    worker_run_strong [OF assms error_free_new, of pf did] error_free_new [of did]
  by (simp add: error_free_def)

text \<open>
  Claim C1, witness: a report of 1 byte of 2, then the completion.
\<close>

theorem job_record_invariant_witness:
  "worker_run [Hook (bytes_report 1 2), Completed ''v.mp4'' ''downloads/v.mp4'' 0]
   \<and> list_all (\<lambda>ev. \<not> reports_error ev)
         [Hook (bytes_report 1 2), Completed ''v.mp4'' ''downloads/v.mp4'' 0]
   \<and> status (apply_events (\<lambda>s. None)
         [Hook (bytes_report 1 2), Completed ''v.mp4'' ''downloads/v.mp4'' 0]
         (new_DownloadProgress ''j'')) = ''completed''
   \<and> file_path (apply_events (\<lambda>s. None)
         [Hook (bytes_report 1 2), Completed ''v.mp4'' ''downloads/v.mp4'' 0]
         (new_DownloadProgress ''j'')) \<noteq> None
   \<and> error (apply_events (\<lambda>s. None)
         [Hook (bytes_report 1 2), Completed ''v.mp4'' ''downloads/v.mp4'' 0]
         (new_DownloadProgress ''j'')) = None"
proof -
  let ?evs = "[Hook (bytes_report 1 2), Completed ''v.mp4'' ''downloads/v.mp4'' 0]"
  have run: "worker_run ?evs" by simp
  have quiet: "list_all (\<lambda>ev. \<not> reports_error ev) ?evs"
    by (simp add: bytes_report_def)
  have completed: "status (apply_events (\<lambda>s. None) ?evs (new_DownloadProgress ''j'')) = ''completed''"
    by (simp add: mark_completed_def)
  show ?thesis
    using job_record_invariant [OF run, of "\<lambda>s. None" "''j''"] run quiet completed
    by auto
qed

text \<open>
  Claim C1, counterexample. The library reports the \<open>error\<close> phase and the download
  succeeds all the same: the record is completed with both \<open>file_path\<close> and \<open>error\<close>
  set. And after a report of the \<open>error\<close> phase and one of the \<open>downloading\<close> phase,
  \<open>error\<close> is set while the status is \<open>downloading\<close>.
\<close>

theorem error_kept_after_recovery:
  "map_of (fst (fst (download_video
       (replay_env [error_report] None
          [\<lparr>e_name = ''j_v.mp4'', e_mtime = 0, e_is_file = True, e_unlink_ok = True\<rparr>])
       ''u'' (Some ''best'') ''j'' None [(''j'', new_DownloadProgress ''j'')]
       \<lparr>temp_files = [], download_files = []\<rparr>))) ''j''
   = Some \<lparr>download_id = ''j'', status = ''completed'', progress = 100,
       filename = Some ''v.mp4'', error = Some ''Unknown error'', completed_at = Some 0,
       file_path = Some ''downloads/v.mp4''\<rparr>
   \<and> apply_events (\<lambda>s. None) [Hook error_report, Hook (bytes_report 1 2)]
       (new_DownloadProgress ''j'')
   = \<lparr>download_id = ''j'', status = ''downloading'', progress = 50,
       filename = None, error = Some ''Unknown error'', completed_at = None,
       file_path = None\<rparr>"
  by code_simp

section \<open>The range of the progress value\<close>

lemma hook_update_progress:
  assumes "hook_in_range pf d" "0 \<le> progress p" "progress p \<le> 100"
  shows "0 \<le> progress (fst (hook_update pf d p)) \<and> progress (fst (hook_update pf d p)) \<le> 100"
proof -
  have bytes: "0 \<le> (of_int n / of_int t :: rat) * 100 \<and> (of_int n / of_int t :: rat) * 100 \<le> 100"
    if "0 \<le> n" "n \<le> t" "t \<noteq> 0" for n t :: int
  proof -
    have "0 < (of_int t :: rat)" "(of_int n :: rat) \<le> of_int t" "0 \<le> (of_int n :: rat)"
      using that by simp_all
    then show ?thesis by (simp add: divide_le_eq)
  qed
  show ?thesis
    using assms bytes
    by (auto simp: hook_update_def percent_fallback_def hook_in_range_def percent_in_range_def
          split: option.splits if_splits)
qed

lemma progress_events:
  assumes "list_all (event_in_range pf) evs" "0 \<le> progress p" "progress p \<le> 100"
  shows "0 \<le> progress (apply_events pf evs p) \<and> progress (apply_events pf evs p) \<le> 100"
  using assms
proof (induction evs arbitrary: p)
  case Nil
  then show ?case by simp
next
  case (Cons ev evs)
  have "0 \<le> progress (apply_event pf ev p) \<and> progress (apply_event pf ev p) \<le> 100"
  proof (cases ev)
    case (Hook d)
    then show ?thesis using hook_update_progress [of pf d p] Cons.prems by simp
  next
    case (Completed a b c)
    then show ?thesis by (simp add: mark_completed_def)
  next
    case (Failed m)
    then show ?thesis using Cons.prems by (simp add: mark_error_def)
  qed
  then show ?case using Cons by simp
qed

text \<open>
  Claim C10, as amended. The progress of a record is within 0 and 100 after every
  sequence of hook calls and worker updates in which each call of the \<open>downloading\<close>
  phase reports a progress within range: bytes downloaded between 0 and the total, or a
  percentage string that parses to a number between 0 and 100.
\<close>

theorem progress_in_range:
  assumes "list_all (event_in_range pf) evs"
  shows "0 \<le> progress (apply_events pf evs (new_DownloadProgress did))
       \<and> progress (apply_events pf evs (new_DownloadProgress did)) \<le> 100"
  using progress_events [OF assms, of "new_DownloadProgress did"]
  by (simp add: new_DownloadProgress_def)

text \<open>
  Claim C10, witness: a report of 1 byte of 2, then the completion.
\<close>

theorem progress_in_range_witness:
  "list_all (event_in_range (\<lambda>s. None))
     [Hook (bytes_report 1 2), Completed ''v.mp4'' ''downloads/v.mp4'' 0]
   \<and> 0 \<le> progress (apply_events (\<lambda>s. None)
           [Hook (bytes_report 1 2), Completed ''v.mp4'' ''downloads/v.mp4'' 0]
           (new_DownloadProgress ''j''))
   \<and> progress (apply_events (\<lambda>s. None)
           [Hook (bytes_report 1 2), Completed ''v.mp4'' ''downloads/v.mp4'' 0]
           (new_DownloadProgress ''j'')) \<le> 100"
proof -
  have ok: "list_all (event_in_range (\<lambda>s. None))
     [Hook (bytes_report 1 2), Completed ''v.mp4'' ''downloads/v.mp4'' 0]"
    by (simp add: hook_in_range_def bytes_report_def)
  from progress_in_range [OF ok, of "''j''"] ok show ?thesis by blast
qed

text \<open>
  Claim C10, counterexample. A callback that reports 3 bytes downloaded of a total of 2
  sets the progress to 150.
\<close>

theorem progress_above_100:
  "map_option progress
     (map_of (fst (progress_hook (\<lambda>s. None) (bytes_report 3 2) ''j''
        [(''j'', new_DownloadProgress ''j'')])) ''j'') = Some 150
   \<and> \<not> (150 :: rat) \<le> 100"
  by code_simp

section \<open>A run of \<open>download_video\<close> is a run of events\<close>

lemma progress_hook_record:
  "map_of reg did = Some p \<Longrightarrow>
     progress_hook pf d did reg =
       (AList.update did (fst (hook_update pf d p)) reg, snd (hook_update pf d p))"
  by (simp add: progress_hook_def split: prod.splits)

lemma run_hooks_events:
  assumes "map_of reg did = Some p" "run_hooks pf ds did reg = (reg', x)"
  shows "\<exists>hs. set hs \<subseteq> set ds \<and> map_of reg' did = Some (apply_events pf (map Hook hs) p)"
  using assms
proof (induction ds arbitrary: reg p)
  case Nil
  then show ?case by (intro exI [of _ "[]"]) simp
next
  case (Cons d ds)
  let ?p1 = "fst (hook_update pf d p)"
  let ?reg1 = "AList.update did ?p1 reg"
  have ph: "progress_hook pf d did reg = (?reg1, snd (hook_update pf d p))"
    using progress_hook_record [OF Cons.prems(1)] .
  have m1: "map_of ?reg1 did = Some ?p1" by (simp add: update_conv')
  show ?case
  proof (cases "snd (hook_update pf d p)")
    case (Some e)
    then have "reg' = ?reg1" using Cons.prems(2) ph by simp
    then show ?thesis using m1 by (intro exI [of _ "[d]"]) simp
  next
    case None
    then have "run_hooks pf ds did ?reg1 = (reg', x)" using Cons.prems(2) ph by simp
    from Cons.IH [OF m1 this] obtain hs where
      "set hs \<subseteq> set ds" "map_of reg' did = Some (apply_events pf (map Hook hs) ?p1)" by blast
    then show ?thesis by (intro exI [of _ "d # hs"]) auto
  qed
qed

lemma apply_events_append:
  "apply_events pf (xs @ ys) p = apply_events pf ys (apply_events pf xs p)"
  by (induction xs arbitrary: p) auto

lemma worker_run_hooks_then: "worker_run (map Hook hs @ [ev])"
proof (induction hs)
  case Nil
  then show ?case by simp
next
  case (Cons h hs)
  obtain e es where "map Hook hs @ [ev] = e # es"
    by (cases "map Hook hs @ [ev]") auto
  then show ?case using Cons by simp
qed

lemma run_ydl_events:
  assumes "map_of reg did = Some p" "run_ydl env opts url did reg = ((reg1, temp1), x)"
  shows "\<exists>hs. set hs \<subseteq> set (at_hooks (env_ydl env opts url))
           \<and> map_of reg1 did = Some (apply_events (env_float env) (map Hook hs) p)"
proof -
  obtain r y where r: "run_hooks (env_float env) (at_hooks (env_ydl env opts url)) did reg = (r, y)"
    by (cases "run_hooks (env_float env) (at_hooks (env_ydl env opts url)) did reg")
  then have "reg1 = r"
    using assms(2) by (auto simp: run_ydl_def Let_def split: option.splits)
  then show ?thesis using run_hooks_events [OF assms(1) r] by simp
qed

lemma download_with_retry_events:
  assumes "map_of reg did = Some p"
    and "download_with_retry env opts url did reg = ((reg1, temp1), x)"
  shows "\<exists>hs. set hs \<subseteq> set (at_hooks (env_ydl env opts url))
                        \<union> set (at_hooks (env_ydl env (retry_opts opts) url))
           \<and> map_of reg1 did = Some (apply_events (env_float env) (map Hook hs) p)"
proof -
  obtain r0 t0 x0 where first: "run_ydl env opts url did reg = ((r0, t0), x0)"
    by (cases "run_ydl env opts url did reg") auto
  from run_ydl_events [OF assms(1) first] obtain hs0 where
    hs0: "set hs0 \<subseteq> set (at_hooks (env_ydl env opts url))"
      "map_of r0 did = Some (apply_events (env_float env) (map Hook hs0) p)" by blast
  show ?thesis
  proof (cases "\<exists>m. x0 = Some (DownloadError m) \<and> (py_in ''403'' m \<or> py_in ''Forbidden'' m)")
    case True
    then have second: "run_ydl env (retry_opts opts) url did r0 = ((reg1, temp1), x)"
      using assms(2) first by (auto simp: download_with_retry_def)
    from run_ydl_events [OF hs0(2) second] obtain hs1 where
      hs1: "set hs1 \<subseteq> set (at_hooks (env_ydl env (retry_opts opts) url))"
        "map_of reg1 did =
           Some (apply_events (env_float env) (map Hook hs1)
                  (apply_events (env_float env) (map Hook hs0) p))" by blast
    show ?thesis
      using hs0(1) hs1 by (intro exI [of _ "hs0 @ hs1"]) (auto simp: apply_events_append)
  next
    case False
    then have "reg1 = r0"
      using assms(2) first
      by (auto simp: download_with_retry_def split: option.splits exn.splits if_splits)
    then show ?thesis using hs0 by (intro exI [of _ hs0]) auto
  qed
qed

lemma map_of_map_entry_same:
  "map_of reg k = Some v \<Longrightarrow> map_of (AList.map_entry k f reg) k = Some (f v)"
  by (simp add: map_of_map_entry)

lemma download_body_events:
  assumes "map_of reg did = Some p"
    and "download_body env url quality did custom_format reg fs = ((reg1, fs1), x)"
  shows "\<exists>hs. set hs \<subseteq> set (at_hooks (env_ydl env (build_opts did custom_format quality) url))
                    \<union> set (at_hooks (env_ydl env
                              (retry_opts (build_opts did custom_format quality)) url))
           \<and> (case x of
                 Some e \<Rightarrow> map_of reg1 did = Some (apply_events (env_float env) (map Hook hs) p)
               | None \<Rightarrow> \<exists>final_filename final_path.
                   map_of reg1 did =
                     Some (apply_events (env_float env)
                       (map Hook hs @ [Completed final_filename final_path (env_now env)]) p))"
proof -
  let ?opts = "build_opts did custom_format quality"
  obtain r0 t0 x0 where dl: "download_with_retry env ?opts url did reg = ((r0, t0), x0)"
    by (cases "download_with_retry env ?opts url did reg") auto
  from download_with_retry_events [OF assms(1) dl] obtain hs where
    hs: "set hs \<subseteq> set (at_hooks (env_ydl env ?opts url))
                    \<union> set (at_hooks (env_ydl env (retry_opts ?opts) url))"
      "map_of r0 did = Some (apply_events (env_float env) (map Hook hs) p)" by blast
  show ?thesis
  proof (cases x0)
    case (Some e)
    then have "reg1 = r0" "x = Some e"
      using assms(2) dl by (auto simp: download_body_def)
    then show ?thesis using hs by (intro exI [of _ hs]) simp
  next
    case None
    show ?thesis
    proof (cases "finish_download env did r0 (fs\<lparr>temp_files := t0\<rparr>)")
      case (Inl e)
      then have "reg1 = r0" "x = Some e"
        using assms(2) dl None by (auto simp: download_body_def)
      then show ?thesis using hs by (intro exI [of _ hs]) simp
    next
      case (Inr st)
      then have x: "x = None" and st: "st = (reg1, fs1)"
        using assms(2) dl None by (auto simp: download_body_def)
      obtain fn fp where "reg1 = AList.map_entry did (mark_completed fn fp (env_now env)) r0"
        using Inr st
        by (auto simp: finish_download_def Let_def split: list.splits option.splits)
      then have "map_of reg1 did =
          Some (apply_events (env_float env) (map Hook hs @ [Completed fn fp (env_now env)]) p)"
        using hs(2) by (simp add: map_of_map_entry_same apply_events_append)
      then show ?thesis using hs(1) x by (intro exI [of _ hs]) auto
    qed
  qed
qed

text \<open>
  What \<open>download_video\<close> does to the record of its job is a run of the worker: the hook
  calls of its attempts that were made, then the completion or the handling of the
  failure.
\<close>

lemma download_video_events:
  assumes "map_of reg did = Some p"
    and "download_video env url quality did custom_format reg fs = ((reg', fs'), x)"
  shows "\<exists>evs. worker_run evs
           \<and> (\<forall>d. Hook d \<in> set evs \<longrightarrow>
                 d \<in> set (at_hooks (env_ydl env (build_opts did custom_format quality) url))
                    \<union> set (at_hooks (env_ydl env
                              (retry_opts (build_opts did custom_format quality)) url)))
           \<and> map_of reg' did = Some (apply_events (env_float env) evs p)"
proof -
  obtain r1 f1 x1 where body: "download_body env url quality did custom_format reg fs = ((r1, f1), x1)"
    by (cases "download_body env url quality did custom_format reg fs") auto
  from download_body_events [OF assms(1) body] obtain hs where
    hs: "set hs \<subseteq> set (at_hooks (env_ydl env (build_opts did custom_format quality) url))
                    \<union> set (at_hooks (env_ydl env
                              (retry_opts (build_opts did custom_format quality)) url))"
    and res: "(case x1 of
                 Some e \<Rightarrow> map_of r1 did = Some (apply_events (env_float env) (map Hook hs) p)
               | None \<Rightarrow> \<exists>final_filename final_path.
                   map_of r1 did =
                     Some (apply_events (env_float env)
                       (map Hook hs @ [Completed final_filename final_path (env_now env)]) p))"
    by blast
  show ?thesis
  proof (cases x1)
    case None
    then have "reg' = r1" using assms body by (simp add: download_video_def)
    moreover obtain fn fp where "map_of r1 did =
         Some (apply_events (env_float env) (map Hook hs @ [Completed fn fp (env_now env)]) p)"
      using res None by auto
    ultimately show ?thesis
      using hs
      by (intro exI [of _ "map Hook hs @ [Completed fn fp (env_now env)]"])
         (auto simp: worker_run_hooks_then)
  next
    case (Some e)
    then have "reg' = AList.map_entry did (mark_error (friendly_error (str_exn e))) r1"
      using assms body by (simp add: download_video_def handle_failure_def)
    moreover have "map_of r1 did = Some (apply_events (env_float env) (map Hook hs) p)"
      using res Some by simp
    ultimately have "map_of reg' did =
        Some (apply_events (env_float env) (map Hook hs @ [Failed (friendly_error (str_exn e))]) p)"
      by (simp add: map_of_map_entry_same apply_events_append)
    then show ?thesis
      using hs
      by (intro exI [of _ "map Hook hs @ [Failed (friendly_error (str_exn e))]"])
         (auto simp: worker_run_hooks_then)
  qed
qed

section \<open>The failure of a worker\<close>

lemma mark_error_fun:
  "mark_error m = (\<lambda>r. r\<lparr>status := ''error'', error := Some m\<rparr>)"
  by (rule ext) (simp add: mark_error_def)

text \<open>
  Claim C7. When the body of the worker raises, for a registered job: the message of the
  exception is replaced by the canned text of the first pattern it contains (\<open>403\<close> or
  \<open>Forbidden\<close>; \<open>404\<close> or, in any case of letters, \<open>not found\<close>; then \<open>copyright\<close>,
  \<open>private\<close>, \<open>unavailable\<close>, in any case of letters) and kept as it is when it contains
  none; the status of the record becomes \<open>error\<close> and its \<open>error\<close> that message; every
  file of the temporary directory whose name starts with the identifier and an
  underscore is removed, unless its \<open>unlink\<close> fails, which changes nothing else; and no
  exception leaves the worker.
\<close>

theorem worker_failure_handled:
  assumes "map_of reg did = Some p"
    and "download_body env url quality did custom_format reg fs = ((reg1, fs1), Some e)"
  shows "download_video env url quality did custom_format reg fs =
           ((AList.map_entry did
               (\<lambda>r. r\<lparr>status := ''error'', error := Some (friendly_error (str_exn e))\<rparr>) reg1,
             fs1\<lparr>temp_files :=
                   filter (\<lambda>f. \<not> (prefix (did @ ''_'') (e_name f) \<and> e_unlink_ok f))
                     (temp_files fs1)\<rparr>),
            None)
       \<and> map_of reg1 did \<noteq> None
       \<and> map_of (AList.map_entry did
               (\<lambda>r. r\<lparr>status := ''error'', error := Some (friendly_error (str_exn e))\<rparr>) reg1) did
           = map_option (\<lambda>r. r\<lparr>status := ''error'', error := Some (friendly_error (str_exn e))\<rparr>)
               (map_of reg1 did)
       \<and> (sublist ''403'' (str_exn e) \<or> sublist ''Forbidden'' (str_exn e)
            \<longrightarrow> friendly_error (str_exn e) = msg_403)
       \<and> (\<not> sublist ''403'' (str_exn e) \<and> \<not> sublist ''Forbidden'' (str_exn e)
            \<and> (sublist ''404'' (str_exn e) \<or> sublist ''not found'' (py_lower (str_exn e)))
            \<longrightarrow> friendly_error (str_exn e) = msg_404)
       \<and> (\<not> sublist ''403'' (str_exn e) \<and> \<not> sublist ''Forbidden'' (str_exn e)
            \<and> \<not> sublist ''404'' (str_exn e) \<and> \<not> sublist ''not found'' (py_lower (str_exn e))
            \<and> sublist ''copyright'' (py_lower (str_exn e))
            \<longrightarrow> friendly_error (str_exn e) = msg_copyright)
       \<and> (\<not> sublist ''403'' (str_exn e) \<and> \<not> sublist ''Forbidden'' (str_exn e)
            \<and> \<not> sublist ''404'' (str_exn e) \<and> \<not> sublist ''not found'' (py_lower (str_exn e))
            \<and> \<not> sublist ''copyright'' (py_lower (str_exn e))
            \<and> sublist ''private'' (py_lower (str_exn e))
            \<longrightarrow> friendly_error (str_exn e) = msg_private)
       \<and> (\<not> sublist ''403'' (str_exn e) \<and> \<not> sublist ''Forbidden'' (str_exn e)
            \<and> \<not> sublist ''404'' (str_exn e) \<and> \<not> sublist ''not found'' (py_lower (str_exn e))
            \<and> \<not> sublist ''copyright'' (py_lower (str_exn e))
            \<and> \<not> sublist ''private'' (py_lower (str_exn e))
            \<and> sublist ''unavailable'' (py_lower (str_exn e))
            \<longrightarrow> friendly_error (str_exn e) = msg_unavailable)
       \<and> (\<not> sublist ''403'' (str_exn e) \<and> \<not> sublist ''Forbidden'' (str_exn e)
            \<and> \<not> sublist ''404'' (str_exn e) \<and> \<not> sublist ''not found'' (py_lower (str_exn e))
            \<and> \<not> sublist ''copyright'' (py_lower (str_exn e))
            \<and> \<not> sublist ''private'' (py_lower (str_exn e))
            \<and> \<not> sublist ''unavailable'' (py_lower (str_exn e))
            \<longrightarrow> friendly_error (str_exn e) = str_exn e)"
proof -
  from download_body_events [OF assms] obtain hs where
    "map_of reg1 did = Some (apply_events (env_float env) (map Hook hs) p)" by auto
  then obtain p1 where p1: "map_of reg1 did = Some p1" by blast
  have dv: "download_video env url quality did custom_format reg fs =
           ((AList.map_entry did
               (\<lambda>r. r\<lparr>status := ''error'', error := Some (friendly_error (str_exn e))\<rparr>) reg1,
             fs1\<lparr>temp_files :=
                   filter (\<lambda>f. \<not> (prefix (did @ ''_'') (e_name f) \<and> e_unlink_ok f))
                     (temp_files fs1)\<rparr>),
            None)"
    using assms
    by (simp add: download_video_def handle_failure_def mark_error_fun cleanup_partial_def
          job_file_def)
  have me: "map_of (AList.map_entry did
               (\<lambda>r. r\<lparr>status := ''error'', error := Some (friendly_error (str_exn e))\<rparr>) reg1) did
           = map_option (\<lambda>r. r\<lparr>status := ''error'', error := Some (friendly_error (str_exn e))\<rparr>)
               (map_of reg1 did)"
    using p1 by (simp add: map_of_map_entry_same)
  have fe: "(sublist ''403'' m \<or> sublist ''Forbidden'' m \<longrightarrow> friendly_error m = msg_403)
       \<and> (\<not> sublist ''403'' m \<and> \<not> sublist ''Forbidden'' m
            \<and> (sublist ''404'' m \<or> sublist ''not found'' (py_lower m))
            \<longrightarrow> friendly_error m = msg_404)
       \<and> (\<not> sublist ''403'' m \<and> \<not> sublist ''Forbidden'' m
            \<and> \<not> sublist ''404'' m \<and> \<not> sublist ''not found'' (py_lower m)
            \<and> sublist ''copyright'' (py_lower m)
            \<longrightarrow> friendly_error m = msg_copyright)
       \<and> (\<not> sublist ''403'' m \<and> \<not> sublist ''Forbidden'' m
            \<and> \<not> sublist ''404'' m \<and> \<not> sublist ''not found'' (py_lower m)
            \<and> \<not> sublist ''copyright'' (py_lower m)
            \<and> sublist ''private'' (py_lower m)
            \<longrightarrow> friendly_error m = msg_private)
       \<and> (\<not> sublist ''403'' m \<and> \<not> sublist ''Forbidden'' m
            \<and> \<not> sublist ''404'' m \<and> \<not> sublist ''not found'' (py_lower m)
            \<and> \<not> sublist ''copyright'' (py_lower m)
            \<and> \<not> sublist ''private'' (py_lower m)
            \<and> sublist ''unavailable'' (py_lower m)
            \<longrightarrow> friendly_error m = msg_unavailable)
       \<and> (\<not> sublist ''403'' m \<and> \<not> sublist ''Forbidden'' m
            \<and> \<not> sublist ''404'' m \<and> \<not> sublist ''not found'' (py_lower m)
            \<and> \<not> sublist ''copyright'' (py_lower m)
            \<and> \<not> sublist ''private'' (py_lower m)
            \<and> \<not> sublist ''unavailable'' (py_lower m)
            \<longrightarrow> friendly_error m = m)" for m
    unfolding friendly_error_def py_in_sublist by simp
  show ?thesis
    using dv p1 me fe [of "str_exn e"] by blast
qed

text \<open>
  Claim C7, witness: the library reports 1 byte of 2 and raises a 404 error, leaving a
  partial file of the job, a file of the job that cannot be unlinked and a file of
  another job.
\<close>

theorem worker_failure_handled_witness:
  "download_video
       (replay_env [bytes_report 1 2] (Some (DownloadError ''ERROR: HTTP Error 404: Not Found''))
          [\<lparr>e_name = ''j_v.mp4.part'', e_mtime = 0, e_is_file = True, e_unlink_ok = True\<rparr>,
           \<lparr>e_name = ''j_locked'', e_mtime = 0, e_is_file = True, e_unlink_ok = False\<rparr>,
           \<lparr>e_name = ''k_w.mp4'', e_mtime = 0, e_is_file = True, e_unlink_ok = True\<rparr>])
       ''u'' (Some ''best'') ''j'' None [(''j'', new_DownloadProgress ''j'')]
       \<lparr>temp_files = [], download_files = []\<rparr>
   = (([(''j'', \<lparr>download_id = ''j'', status = ''error'', progress = 50, filename = None,
                 error = Some msg_404, completed_at = None, file_path = None\<rparr>)],
       \<lparr>temp_files =
          [\<lparr>e_name = ''j_locked'', e_mtime = 0, e_is_file = True, e_unlink_ok = False\<rparr>,
           \<lparr>e_name = ''k_w.mp4'', e_mtime = 0, e_is_file = True, e_unlink_ok = True\<rparr>],
        download_files = []\<rparr>), None)"
proof -
  let ?env = "replay_env [bytes_report 1 2]
      (Some (DownloadError ''ERROR: HTTP Error 404: Not Found''))
          [\<lparr>e_name = ''j_v.mp4.part'', e_mtime = 0, e_is_file = True, e_unlink_ok = True\<rparr>,
           \<lparr>e_name = ''j_locked'', e_mtime = 0, e_is_file = True, e_unlink_ok = False\<rparr>,
           \<lparr>e_name = ''k_w.mp4'', e_mtime = 0, e_is_file = True, e_unlink_ok = True\<rparr>]"
  have reg: "map_of [(''j'', new_DownloadProgress ''j'')] ''j'' = Some (new_DownloadProgress ''j'')"
    by simp
  have body: "download_body ?env ''u'' (Some ''best'') ''j'' None
        [(''j'', new_DownloadProgress ''j'')] \<lparr>temp_files = [], download_files = []\<rparr>
      = (([(''j'', (new_DownloadProgress ''j'')\<lparr>progress := 50, status := ''downloading''\<rparr>)],
          \<lparr>temp_files =
          [\<lparr>e_name = ''j_v.mp4.part'', e_mtime = 0, e_is_file = True, e_unlink_ok = True\<rparr>,
           \<lparr>e_name = ''j_locked'', e_mtime = 0, e_is_file = True, e_unlink_ok = False\<rparr>,
           \<lparr>e_name = ''k_w.mp4'', e_mtime = 0, e_is_file = True, e_unlink_ok = True\<rparr>],
           download_files = []\<rparr>),
         Some (DownloadError ''ERROR: HTTP Error 404: Not Found''))"
    by code_simp
  have m: "friendly_error ''ERROR: HTTP Error 404: Not Found'' = msg_404"
    by code_simp
  show ?thesis
    using worker_failure_handled [OF reg body] m
    by (simp add: new_DownloadProgress_def)
qed

end
